theory Spec2Isabelle
  imports Main "HOL-Library.Word"
begin

section \<open>Chain swaps between ARK and BTC: the client's event handlers\<close>

text \<open>
  The repository holds two scripts, each a single function \<open>chainSwap\<close>: it creates a swap
  over HTTP, subscribes to the swap's updates on a WebSocket and reacts to every message
  with a \<open>switch\<close> on the status. \<^verbatim>\<open>arkToBtc.ts\<close> swaps from ARK to BTC and claims the
  lockup of the service itself; the second script swaps from BTC to ARK and only signs the
  claim of the service.

  The embedding follows the scripts statement by statement.
  \<^item> Binary values are \<open>Uint8Array\<close>s: lists of bytes. \<open>hex.encode\<close> and \<open>hex.decode\<close> are
    written out; \<open>hex.decode\<close> throws, so it returns an \<open>option\<close>.
  \<^item> Every call that leaves the script is recorded: an HTTP request, a WebSocket
    operation, a call of the MuSig2 builder. A handler returns its result together with
    the list of these steps in the order the script performs them; a \<open>throw\<close> ends the
    list where it happens.
  \<^item> The libraries (\<open>boltz-core\<close>, \<open>@scure/btc-signer\<close>, \<open>@noble\<close>) and the service are
    parameters: a record of functions each. Every theorem holds for all of them.
  \<^item> \<open>console.log\<close> is left out.
\<close>

subsection \<open>Bytes and hex\<close>

type_synonym bytes = "8 word list"

definition hex_digit :: "nat \<Rightarrow> char" where
  "hex_digit n = ''0123456789abcdef'' ! n"

definition encode_byte :: "8 word \<Rightarrow> string" where
  "encode_byte b = [hex_digit (unat b div 16), hex_digit (unat b mod 16)]"

text \<open>\<open>hex.encode\<close>: two lower-case digits for every byte.\<close>

definition hex_encode :: "bytes \<Rightarrow> string" where
  "hex_encode bs = concat (map encode_byte bs)"

text \<open>The value of one hex digit; both cases are accepted, anything else is not a digit.\<close>

definition hex_value :: "char \<Rightarrow> nat option" where
  "hex_value c =
     (let n = (of_char c :: nat) in
      if 48 \<le> n \<and> n \<le> 57 then Some (n - 48)
      else if 65 \<le> n \<and> n \<le> 70 then Some (n - 55)
      else if 97 \<le> n \<and> n \<le> 102 then Some (n - 87)
      else None)"

text \<open>
  \<open>hex.decode\<close>: throws on a string of odd length and on a character that is not a hex
  digit; every pair of digits is one byte. It checks nothing else: the number of bytes is
  whatever the string holds.
\<close>

fun hex_decode :: "string \<Rightarrow> bytes option" where
  "hex_decode [] = Some []"
| "hex_decode [c] = None"
| "hex_decode (a # b # cs) =
     (case hex_value a of
        None \<Rightarrow> None
      | Some h \<Rightarrow>
          (case hex_value b of
             None \<Rightarrow> None
           | Some l \<Rightarrow>
               (case hex_decode cs of
                  None \<Rightarrow> None
                | Some bs \<Rightarrow> Some (word_of_nat (h * 16 + l) # bs))))"

subsection \<open>Steps, errors and sequencing\<close>

datatype error =
    DecodeError  \<comment> \<open>\<open>hex.decode\<close> threw\<close>
  | TypeError  \<comment> \<open>a property of \<open>undefined\<close> was read\<close>
  | FetchError  \<comment> \<open>\<open>fetch\<close> rejected or the response was not JSON\<close>
  | LibError  \<comment> \<open>a library call threw\<close>

text \<open>The bodies of the POST requests, one constructor for every object literal.\<close>

datatype body =
    CreateBody (b_userLockAmount: int) (b_from: string) (b_to: string)
      (b_preimageHash: string) (b_claimPublicKey: string) (b_refundPublicKey: string)
  | QuoteBody (b_amount: int)
  | ClaimBody (b_preimage: string) (b_toSign_pubNonce: string)
      (b_toSign_transaction: string) (b_toSign_index: nat)
  | SignatureBody (b_partialSignature: string) (b_pubNonce: string)
  | BroadcastBody (b_hex: string)

datatype request = GET string | POST string body

datatype musig_op =
    OpCreate bytes "bytes list"
  | OpMessage bytes
  | OpGenerateNonce
  | OpAggregateNonces "(bytes \<times> bytes) list"
  | OpInitializeSession
  | OpAddPartial bytes bytes
  | OpSignPartial
  | OpAggregatePartials

datatype step =
    Fetch request
  | WsSubscribe string
  | WsClose
  | Musig musig_op

type_synonym 'a io = "(error + 'a) \<times> step list"

definition ret :: "'a \<Rightarrow> 'a io" where
  "ret x = (Inr x, [])"

definition throw :: "error \<Rightarrow> 'a io" where
  "throw e = (Inl e, [])"

text \<open>A value or an exception of a call that leaves no step.\<close>

definition lift :: "error + 'a \<Rightarrow> 'a io" where
  "lift r = (r, [])"

text \<open>
  Sequencing: the steps of the first computation, then, unless it threw, those of the
  second.
\<close>

definition io_bind :: "'a io \<Rightarrow> ('a \<Rightarrow> 'b io) \<Rightarrow> 'b io" where
  "io_bind m f =
     (case fst m of
        Inl e \<Rightarrow> (Inl e, snd m)
      | Inr x \<Rightarrow> (fst (f x), snd m @ snd (f x)))"

text \<open>\<open>await fetch(...)\<close> followed by \<open>.json()\<close>: the request is made, then the answer read.\<close>

definition fetch :: "request \<Rightarrow> error + 'a \<Rightarrow> 'a io" where
  "fetch req answer = (answer, [Fetch req])"

text \<open>A call of the MuSig2 builder: the call is made, then it returns or throws.\<close>

definition musig_call :: "musig_op \<Rightarrow> error + 'a \<Rightarrow> 'a io" where
  "musig_call op r = (r, [Musig op])"

definition decode :: "string \<Rightarrow> bytes io" where
  "decode s = (case hex_decode s of None \<Rightarrow> throw DecodeError | Some bs \<Rightarrow> ret bs)"

subsection \<open>The data of the scripts\<close>

text \<open>
  The answer to the creation request, \<open>createdResponse\<close>, has the type \<open>any\<close>; the fields
  are those of the service's answer. \<open>publishedAggregateKey\<close> stands for the aggregate key
  that the answer publishes for a side of the swap (on the wire it is inside the lockup
  address); no statement of either script reads it.
\<close>

record details =
  swapTree :: string
  serverPublicKey :: string
  publishedAggregateKey :: string

record createdResponse =
  swapId :: string  \<comment> \<open>\<open>createdResponse.id\<close>\<close>
  claimDetails :: details
  lockupDetails :: details

text \<open>\<open>msg.args[0]\<close> of an update, and the WebSocket message itself.\<close>

record update =
  upd_id :: string
  upd_status :: string
  upd_transaction_hex :: "string option"  \<comment> \<open>\<open>transaction.hex\<close>, when there is a transaction\<close>

record message =
  event :: string
  args :: "update list"

record quoteData =
  amount :: int

record claimDetailsResponse =
  cd_pubNonce :: string
  cd_publicKey :: string
  cd_transactionHash :: string

record signedTxData =
  st_pubNonce :: string
  st_partialSignature :: string

text \<open>What \<open>detectSwap\<close> returns when it finds the output.\<close>

record swapOutput =
  out_script :: bytes
  out_amount :: nat
  out_vout :: nat

datatype outputType = Taproot

text \<open>The object literal given to \<open>constructClaimTransaction\<close>.\<close>

record 'tree claimUtxo =
  utxo_preimage :: bytes
  utxo_type :: outputType
  utxo_script :: bytes
  utxo_amount :: nat
  utxo_vout :: nat
  utxo_privateKey :: bytes
  utxo_transactionId :: string
  utxo_swapTree :: 'tree
  utxo_internalKey :: bytes
  utxo_cooperative :: bool

text \<open>
  The service. Every field answers one kind of request with the JSON the script reads
  from it, or fails. \<open>posted\<close> answers the requests whose answer is only logged.
\<close>

record service =
  created :: "request \<Rightarrow> error + createdResponse"
  quote :: "request \<Rightarrow> error + quoteData"
  claimInfo :: "request \<Rightarrow> error + claimDetailsResponse"
  signedTx :: "request \<Rightarrow> error + signedTxData"
  posted :: "request \<Rightarrow> error + unit"

text \<open>
  The libraries: \<open>'tree\<close> is a deserialized swap tree, \<open>'tx\<close> a transaction, \<open>'m\<close> a MuSig2
  builder in any of its stages. A call that can throw returns a sum. \<open>tweakMusig\<close> is
  given the swap tree and reads its field \<open>tree\<close>; \<open>generateNonce\<close> draws its randomness
  inside. \<open>targetFee\<close> takes the construction of the transaction as a function of the fee.
  \<open>destinationScript\<close> is \<open>OutScript.encode(Address(network).decode(destinationAddress))\<close>,
  an expression of constants that the script evaluates among the arguments of
  \<open>constructClaimTransaction\<close>.
\<close>

record ('tree, 'tx, 'm) lib =
  sha256 :: "bytes \<Rightarrow> bytes"
  getPublicKey :: "bytes \<Rightarrow> bytes"
  fromRaw :: "bytes \<Rightarrow> error + 'tx"
  tx_id :: "'tx \<Rightarrow> string"
  tx_hex :: "'tx \<Rightarrow> string"
  deserializeSwapTree :: "string \<Rightarrow> error + 'tree"
  musigCreate :: "bytes \<Rightarrow> bytes list \<Rightarrow> error + 'm"
  tweakMusig :: "'m \<Rightarrow> 'tree \<Rightarrow> error + 'm"
  aggPubkey :: "'m \<Rightarrow> bytes"
  internalKey :: "'m \<Rightarrow> bytes"
  detectSwap :: "bytes \<Rightarrow> 'tx \<Rightarrow> swapOutput option"
  targetFee :: "nat \<Rightarrow> (nat \<Rightarrow> error + 'tx) \<Rightarrow> error + 'tx"
  constructClaimTransaction :: "'tree claimUtxo list \<Rightarrow> bytes \<Rightarrow> nat \<Rightarrow> error + 'tx"
  destinationScript :: "error + bytes"
  preimageWitnessV1 :: "'tx \<Rightarrow> nat \<Rightarrow> bytes list \<Rightarrow> nat \<Rightarrow> nat list \<Rightarrow> error + bytes"
  musigMessage :: "'m \<Rightarrow> bytes \<Rightarrow> error + 'm"
  generateNonce :: "'m \<Rightarrow> error + 'm"
  publicNonce :: "'m \<Rightarrow> bytes"
  aggregateNonces :: "'m \<Rightarrow> (bytes \<times> bytes) list \<Rightarrow> error + 'm"
  initializeSession :: "'m \<Rightarrow> error + 'm"
  addPartial :: "'m \<Rightarrow> bytes \<Rightarrow> bytes \<Rightarrow> error + 'm"
  signPartial :: "'m \<Rightarrow> error + 'm"
  ourPartialSignature :: "'m \<Rightarrow> bytes"
  aggregatePartials :: "'m \<Rightarrow> error + bytes"
  updateInput :: "'tx \<Rightarrow> nat \<Rightarrow> bytes list \<Rightarrow> error + 'tx"

text \<open>
  What \<open>chainSwap\<close> holds in its closure: the random preimage, the random secret key
  (\<open>claimKeys\<close> in one script, \<open>refundKeys\<close> in the other) and the answer of the creation.
\<close>

record closure =
  preimage :: bytes
  secretKey :: bytes
  createdResponse :: createdResponse

subsection \<open>Constants and URLs\<close>

definition endpoint :: string where
  "endpoint = ''http://127.0.0.1:9006''"

definition userLockAmount :: int where
  "userLockAmount = 100000"

definition arkPublicKey :: "bytes option" where
  "arkPublicKey =
     hex_decode ''0287cc2a12b37f6f278cd3807df0c8b8b2affde1bed8064447781ac50155754107''"

definition SigHash_DEFAULT :: nat where
  "SigHash_DEFAULT = 0"

definition createUrl :: string where
  "createUrl = endpoint @ ''/v2/swap/chain''"

definition quoteUrl :: "createdResponse \<Rightarrow> string" where
  "quoteUrl cr = endpoint @ ''/v2/swap/chain/'' @ swapId cr @ ''/quote''"

definition claimUrl :: "createdResponse \<Rightarrow> string" where
  "claimUrl cr = endpoint @ ''/v2/swap/chain/'' @ swapId cr @ ''/claim''"

definition broadcastUrl :: string where
  "broadcastUrl = endpoint @ ''/v2/chain/BTC/transaction''"

subsection \<open>Creation of the swap\<close>

text \<open>The body of the creation request of \<^verbatim>\<open>arkToBtc.ts\<close>: from ARK to BTC.\<close>

definition arkToBtc_createBody :: "('tree, 'tx, 'm) lib \<Rightarrow> bytes \<Rightarrow> bytes \<Rightarrow> bytes \<Rightarrow> body" where
  "arkToBtc_createBody L pre claimKeys arkKey =
     CreateBody userLockAmount ''ARK'' ''BTC''
       (hex_encode (sha256 L pre))
       (hex_encode (getPublicKey L claimKeys))
       (hex_encode arkKey)"

text \<open>The body of the creation request of the second script: from BTC to ARK.\<close>

definition btcToArk_createBody :: "('tree, 'tx, 'm) lib \<Rightarrow> bytes \<Rightarrow> bytes \<Rightarrow> bytes \<Rightarrow> body" where
  "btcToArk_createBody L pre refundKeys arkKey =
     CreateBody userLockAmount ''BTC'' ''ARK''
       (hex_encode (sha256 L pre))
       (hex_encode arkKey)
       (hex_encode (getPublicKey L refundKeys))"

text \<open>
  The start of \<open>chainSwap\<close>, given the random preimage and secret key: decode the ARK key,
  post the creation request, subscribe to the updates of the created swap.
\<close>

definition chainSwap_start ::
  "(bytes \<Rightarrow> body) \<Rightarrow> service \<Rightarrow> bytes \<Rightarrow> bytes \<Rightarrow> closure io" where
  "chainSwap_start mkBody S pre ks =
     io_bind (case arkPublicKey of None \<Rightarrow> throw DecodeError | Some k \<Rightarrow> ret k) (\<lambda>arkKey.
     io_bind (fetch (POST createUrl (mkBody arkKey)) (created S (POST createUrl (mkBody arkKey)))) (\<lambda>cr.
     io_bind ((Inr (), [WsSubscribe (swapId cr)])) (\<lambda>_.
     ret \<lparr>preimage = pre, secretKey = ks, createdResponse = cr\<rparr>)))"

definition arkToBtc_start :: "('tree, 'tx, 'm) lib \<Rightarrow> service \<Rightarrow> bytes \<Rightarrow> bytes \<Rightarrow> closure io" where
  "arkToBtc_start L S pre claimKeys =
     chainSwap_start (arkToBtc_createBody L pre claimKeys) S pre claimKeys"

definition btcToArk_start :: "('tree, 'tx, 'm) lib \<Rightarrow> service \<Rightarrow> bytes \<Rightarrow> bytes \<Rightarrow> closure io" where
  "btcToArk_start L S pre refundKeys =
     chainSwap_start (btcToArk_createBody L pre refundKeys) S pre refundKeys"

subsection \<open>The handlers of the statuses\<close>

text \<open>
  \<open>transaction.lockupFailed\<close>, the same statements in both scripts: GET the quote, POST
  its amount back to the same URL.
\<close>

definition lockupFailed :: "service \<Rightarrow> createdResponse \<Rightarrow> unit io" where
  "lockupFailed S cr =
     io_bind (fetch (GET (quoteUrl cr)) (quote S (GET (quoteUrl cr)))) (\<lambda>quoteData.
     io_bind (fetch (POST (quoteUrl cr) (QuoteBody (amount quoteData)))
                (posted S (POST (quoteUrl cr) (QuoteBody (amount quoteData))))) (\<lambda>postData.
     ret ()))"

text \<open>
  \<open>transaction.server.mempool\<close> of \<^verbatim>\<open>arkToBtc.ts\<close>: find the output of the lockup that pays
  the tweaked aggregate key, build the claim, have the service sign it, sign it, broadcast.
  \<open>detectSwap(...)!\<close> asserts nothing when it runs: reading \<open>swapOutput.script\<close> of an
  undefined \<open>swapOutput\<close> is what throws, inside the function given to \<open>targetFee\<close> and
  again in the arguments of \<open>preimageWitnessV1\<close>.
\<close>

definition arkToBtc_serverMempool ::
  "('tree, 'tx, 'm) lib \<Rightarrow> service \<Rightarrow> closure \<Rightarrow> update \<Rightarrow> unit io" where
  "arkToBtc_serverMempool L S ctx u =
     (let cr = createdResponse ctx; claimKeys = secretKey ctx in
      io_bind (case upd_transaction_hex u of None \<Rightarrow> throw TypeError | Some h \<Rightarrow> decode h) (\<lambda>raw.
      io_bind (lift (fromRaw L raw)) (\<lambda>lockupTx.
      io_bind (lift (deserializeSwapTree L (swapTree (claimDetails cr)))) (\<lambda>swapTree.
      io_bind (decode (serverPublicKey (claimDetails cr))) (\<lambda>serverKey.
      io_bind (musig_call (OpCreate claimKeys [serverKey, getPublicKey L claimKeys])
                 (musigCreate L claimKeys [serverKey, getPublicKey L claimKeys])) (\<lambda>keyAgg.
      io_bind (lift (tweakMusig L keyAgg swapTree)) (\<lambda>musig.
      let swapOutput = detectSwap L (aggPubkey L musig) lockupTx in
      io_bind (lift (targetFee L 1 (\<lambda>fee.
                 case swapOutput of
                   None \<Rightarrow> Inl TypeError
                 | Some out \<Rightarrow>
                     (case destinationScript L of
                        Inl e \<Rightarrow> Inl e
                      | Inr destination \<Rightarrow>
                          constructClaimTransaction L
                            [\<lparr>utxo_preimage = preimage ctx, utxo_type = Taproot,
                              utxo_script = out_script out, utxo_amount = out_amount out,
                              utxo_vout = out_vout out, utxo_privateKey = claimKeys,
                              utxo_transactionId = tx_id L lockupTx, utxo_swapTree = swapTree,
                              utxo_internalKey = internalKey L musig,
                              utxo_cooperative = True\<rparr>]
                            destination fee)))) (\<lambda>claimTx.
      io_bind (case swapOutput of
                 None \<Rightarrow> throw TypeError
               | Some out \<Rightarrow>
                   lift (preimageWitnessV1 L claimTx 0 [out_script out] SigHash_DEFAULT
                           [out_amount out])) (\<lambda>sighash.
      io_bind (musig_call (OpMessage sighash) (musigMessage L musig sighash)) (\<lambda>withMessage.
      io_bind (musig_call OpGenerateNonce (generateNonce L withMessage)) (\<lambda>musigMessage.
      let claimBody = ClaimBody (hex_encode (preimage ctx))
                        (hex_encode (publicNonce L musigMessage)) (tx_hex L claimTx) 0 in
      io_bind (fetch (POST (claimUrl cr) claimBody) (signedTx S (POST (claimUrl cr) claimBody)))
        (\<lambda>signedTxData.
      io_bind (decode (serverPublicKey (claimDetails cr))) (\<lambda>serverKey1.
      io_bind (decode (st_pubNonce signedTxData)) (\<lambda>serverNonce.
      io_bind (musig_call (OpAggregateNonces [(serverKey1, serverNonce)])
                 (aggregateNonces L musigMessage [(serverKey1, serverNonce)])) (\<lambda>aggregated.
      io_bind (musig_call OpInitializeSession (initializeSession L aggregated)) (\<lambda>musigSession.
      io_bind (decode (serverPublicKey (claimDetails cr))) (\<lambda>serverKey2.
      io_bind (decode (st_partialSignature signedTxData)) (\<lambda>serverPartial.
      io_bind (musig_call (OpAddPartial serverKey2 serverPartial)
                 (addPartial L musigSession serverKey2 serverPartial)) (\<lambda>musigSession1.
      io_bind (musig_call OpSignPartial (signPartial L musigSession1)) (\<lambda>musigSigned.
      io_bind (musig_call OpAggregatePartials (aggregatePartials L musigSigned)) (\<lambda>signature.
      io_bind (lift (updateInput L claimTx 0 [signature])) (\<lambda>claimTx1.
      io_bind (fetch (POST broadcastUrl (BroadcastBody (tx_hex L claimTx1)))
                 (posted S (POST broadcastUrl (BroadcastBody (tx_hex L claimTx1))))) (\<lambda>broadcastData.
      ret ())))))))))))))))))))))))"

text \<open>The message handler of \<^verbatim>\<open>arkToBtc.ts\<close>.\<close>

definition arkToBtc_onMessage ::
  "('tree, 'tx, 'm) lib \<Rightarrow> service \<Rightarrow> closure \<Rightarrow> message \<Rightarrow> unit io" where
  "arkToBtc_onMessage L S ctx msg =
     (if event msg \<noteq> ''update'' then ret ()
      else
        (case args msg of
           [] \<Rightarrow> throw TypeError
         | u # _ \<Rightarrow>
             if upd_status u = ''swap.created'' then ret ()
             else if upd_status u = ''transaction.lockupFailed''
               then lockupFailed S (createdResponse ctx)
             else if upd_status u = ''transaction.server.mempool''
               then arkToBtc_serverMempool L S ctx u
             else if upd_status u = ''transaction.claimed'' then (Inr (), [WsClose])
             else ret ()))"

text \<open>
  \<open>transaction.claim.pending\<close> of the second script: GET the claim details, sign the
  transaction hash they hold, POST the partial signature.
\<close>

definition btcToArk_claimPending ::
  "('tree, 'tx, 'm) lib \<Rightarrow> service \<Rightarrow> closure \<Rightarrow> unit io" where
  "btcToArk_claimPending L S ctx =
     (let cr = createdResponse ctx; refundKeys = secretKey ctx in
      io_bind (fetch (GET (claimUrl cr)) (claimInfo S (GET (claimUrl cr)))) (\<lambda>claimDetails.
      io_bind (decode (cd_publicKey claimDetails)) (\<lambda>theirKey.
      io_bind (musig_call (OpCreate refundKeys [theirKey, getPublicKey L refundKeys])
                 (musigCreate L refundKeys [theirKey, getPublicKey L refundKeys])) (\<lambda>keyAgg.
      io_bind (lift (deserializeSwapTree L (swapTree (lockupDetails cr)))) (\<lambda>swapTree.
      io_bind (lift (tweakMusig L keyAgg swapTree)) (\<lambda>musig.
      io_bind (decode (cd_transactionHash claimDetails)) (\<lambda>transactionHash.
      io_bind (musig_call (OpMessage transactionHash) (musigMessage L musig transactionHash))
        (\<lambda>withMessage.
      io_bind (musig_call OpGenerateNonce (generateNonce L withMessage)) (\<lambda>withNonce.
      io_bind (decode (serverPublicKey (lockupDetails cr))) (\<lambda>serverKey.
      io_bind (decode (cd_pubNonce claimDetails)) (\<lambda>serverNonce.
      io_bind (musig_call (OpAggregateNonces [(serverKey, serverNonce)])
                 (aggregateNonces L withNonce [(serverKey, serverNonce)])) (\<lambda>aggregated.
      io_bind (musig_call OpInitializeSession (initializeSession L aggregated)) (\<lambda>musigNonces.
      io_bind (musig_call OpSignPartial (signPartial L musigNonces)) (\<lambda>partialSig.
      let sigBody = SignatureBody (hex_encode (ourPartialSignature L partialSig))
                      (hex_encode (publicNonce L partialSig)) in
      io_bind (fetch (POST (claimUrl cr) sigBody) (posted S (POST (claimUrl cr) sigBody)))
        (\<lambda>postData.
      ret ())))))))))))))))"

text \<open>The message handler of the second script.\<close>

definition btcToArk_onMessage ::
  "('tree, 'tx, 'm) lib \<Rightarrow> service \<Rightarrow> closure \<Rightarrow> message \<Rightarrow> unit io" where
  "btcToArk_onMessage L S ctx msg =
     (if event msg \<noteq> ''update'' then ret ()
      else
        (case args msg of
           [] \<Rightarrow> throw TypeError
         | u # _ \<Rightarrow>
             if upd_status u = ''swap.created'' then ret ()
             else if upd_status u = ''transaction.lockupFailed''
               then lockupFailed S (createdResponse ctx)
             else if upd_status u = ''transaction.server.mempool'' then ret ()
             else if upd_status u = ''transaction.claim.pending''
               then btcToArk_claimPending L S ctx
             else if upd_status u = ''transaction.claimed'' then (Inr (), [WsClose])
             else ret ()))"

subsection \<open>Messages\<close>

text \<open>An update as the socket delivers it: the event \<open>update\<close> with one argument.\<close>

definition updateMsg :: "update \<Rightarrow> message" where
  "updateMsg u = \<lparr>event = ''update'', args = [u]\<rparr>"

subsection \<open>Predicates on steps\<close>

definition isQuoteFetch :: "createdResponse \<Rightarrow> step \<Rightarrow> bool" where
  "isQuoteFetch cr s = (s = Fetch (GET (quoteUrl cr)))"

definition isQuoteSubmit :: "createdResponse \<Rightarrow> step \<Rightarrow> bool" where
  "isQuoteSubmit cr s =
     (case s of Fetch (POST url (QuoteBody a)) \<Rightarrow> url = quoteUrl cr | _ \<Rightarrow> False)"

definition isFetch :: "step \<Rightarrow> bool" where
  "isFetch s = (case s of Fetch r \<Rightarrow> True | _ \<Rightarrow> False)"

definition isPost :: "step \<Rightarrow> bool" where
  "isPost s = (case s of Fetch (POST url b) \<Rightarrow> True | _ \<Rightarrow> False)"

definition isCreate :: "step \<Rightarrow> bool" where
  "isCreate s = (case s of Musig (OpCreate k ks) \<Rightarrow> True | _ \<Rightarrow> False)"

definition isSign :: "step \<Rightarrow> bool" where
  "isSign s = (s = Musig OpSignPartial)"

text \<open>Round 2 of MuSig2: the session is initialized, the partial signature computed.\<close>

definition isRound2 :: "step \<Rightarrow> bool" where
  "isRound2 s = (s = Musig OpInitializeSession \<or> s = Musig OpSignPartial)"

definition isAggregateNonces :: "step \<Rightarrow> bool" where
  "isAggregateNonces s = (case s of Musig (OpAggregateNonces ns) \<Rightarrow> True | _ \<Rightarrow> False)"

text \<open>
  The request whose answer carries the public nonce of the service: the POST of the claim
  in \<^verbatim>\<open>arkToBtc.ts\<close>, the GET of the claim details in the second script.
\<close>

definition isNonceFetch :: "createdResponse \<Rightarrow> step \<Rightarrow> bool" where
  "isNonceFetch cr s =
     (case s of
        Fetch (GET url) \<Rightarrow> url = claimUrl cr
      | Fetch (POST url (ClaimBody p n t i)) \<Rightarrow> url = claimUrl cr
      | _ \<Rightarrow> False)"

text \<open>Every step that satisfies \<open>Q\<close> comes after a step that satisfies \<open>P\<close>.\<close>

definition before :: "(step \<Rightarrow> bool) \<Rightarrow> (step \<Rightarrow> bool) \<Rightarrow> step list \<Rightarrow> bool" where
  "before P Q t = (\<forall>i < length t. Q (t ! i) \<longrightarrow> (\<exists>j < i. P (t ! j)))"

text \<open>
  The aggregate key as both scripts derive it: the MuSig2 of the own key and the key of the
  other side, tweaked with the swap tree.
\<close>

definition derivedAggregateKey ::
  "('tree, 'tx, 'm) lib \<Rightarrow> bytes \<Rightarrow> bytes \<Rightarrow> 'tree \<Rightarrow> error + bytes" where
  "derivedAggregateKey L own their tree =
     (case musigCreate L own [their, getPublicKey L own] of
        Inl e \<Rightarrow> Inl e
      | Inr keyAgg \<Rightarrow>
          (case tweakMusig L keyAgg tree of
             Inl e \<Rightarrow> Inl e
           | Inr musig \<Rightarrow> Inr (aggPubkey L musig)))"

subsection \<open>Fee targeting\<close>

text \<open>
  Modelled from the spec: \<open>targetFee\<close> and \<open>constructClaimTransaction\<close> are functions of
  the library \<open>boltz-core\<close>; the source files hold only the call
  \<open>targetFee(1, (fee) => constructClaimTransaction(...))\<close>. The spec, section 4.3: construct a
  candidate transaction with fee 0, measure its weight, compute the fee as weight times
  rate, rebuild with that fee subtracted from the output value, repeat until the fee
  implied by the new weight is the fee of the transaction; an input amount smaller than
  the dust threshold plus the fee fails with \<open>InsufficientAmount\<close>. The weight of a
  transaction is a parameter. A run that never stabilizes has the value \<open>None\<close>.
\<close>

record claimDraft =
  draft_input :: nat
  draft_output :: nat

datatype build_error = InsufficientAmount

definition draft_fee :: "claimDraft \<Rightarrow> nat" where
  "draft_fee tx = draft_input tx - draft_output tx"

definition constructDraft :: "nat \<Rightarrow> nat \<Rightarrow> nat \<Rightarrow> build_error + claimDraft" where
  "constructDraft amt dust fee =
     (if amt < dust + fee then Inl InsufficientAmount
      else Inr \<lparr>draft_input = amt, draft_output = amt - fee\<rparr>)"

partial_function (option) feeTargeting_from ::
  "(claimDraft \<Rightarrow> nat) \<Rightarrow> nat \<Rightarrow> nat \<Rightarrow> nat \<Rightarrow> nat \<Rightarrow> (build_error + claimDraft) option" where
  "feeTargeting_from weight rate amt dust fee =
     (case constructDraft amt dust fee of
        Inl e \<Rightarrow> Some (Inl e)
      | Inr tx \<Rightarrow>
          if weight tx * rate = fee then Some (Inr tx)
          else feeTargeting_from weight rate amt dust (weight tx * rate))"

definition feeTargeting ::
  "(claimDraft \<Rightarrow> nat) \<Rightarrow> nat \<Rightarrow> nat \<Rightarrow> nat \<Rightarrow> (build_error + claimDraft) option" where
  "feeTargeting weight rate amt dust = feeTargeting_from weight rate amt dust 0"

subsection \<open>An instance of the parameters, for concrete runs\<close>

text \<open>
  A library whose builder keeps the bytes it is given and never throws: the aggregate of
  the keys is their concatenation, a transaction is its raw bytes and pays a key when its
  bytes are that key, and a signature is the message.
\<close>

definition demoLib :: "(unit, bytes, bytes) lib" where
  "demoLib =
     \<lparr>sha256 = rev,
      getPublicKey = (\<lambda>k. k),
      fromRaw = Inr,
      tx_id = hex_encode,
      tx_hex = hex_encode,
      deserializeSwapTree = (\<lambda>s. Inr ()),
      musigCreate = (\<lambda>k ks. Inr (concat ks)),
      tweakMusig = (\<lambda>m t. Inr m),
      aggPubkey = (\<lambda>m. m),
      internalKey = (\<lambda>m. m),
      detectSwap = (\<lambda>k tx. if tx = k
         then Some \<lparr>out_script = k, out_amount = 100000, out_vout = 0\<rparr> else None),
      targetFee = (\<lambda>rate construct. construct rate),
      constructClaimTransaction = (\<lambda>utxos destination fee. Inr destination),
      destinationScript = Inr [1],
      preimageWitnessV1 = (\<lambda>tx i scripts sighash amounts. Inr tx),
      musigMessage = (\<lambda>m msg. Inr msg),
      generateNonce = Inr,
      publicNonce = (\<lambda>m. m),
      aggregateNonces = (\<lambda>m ns. Inr m),
      initializeSession = Inr,
      addPartial = (\<lambda>m k p. Inr m),
      signPartial = Inr,
      ourPartialSignature = (\<lambda>m. m),
      aggregatePartials = Inr,
      updateInput = (\<lambda>tx i witness. Inr tx)\<rparr>"

definition demoCreated :: createdResponse where
  "demoCreated =
     \<lparr>swapId = ''swap1'',
      claimDetails = \<lparr>swapTree = ''tree'', serverPublicKey = ''02'',
                       publishedAggregateKey = ''ff''\<rparr>,
      lockupDetails = \<lparr>swapTree = ''tree'', serverPublicKey = ''03'',
                        publishedAggregateKey = ''ff''\<rparr>\<rparr>"

text \<open>A service that answers the claim details with the transaction hash \<open>h\<close>.\<close>

definition demoService :: "string \<Rightarrow> service" where
  "demoService h =
     \<lparr>created = (\<lambda>r. Inr demoCreated),
      quote = (\<lambda>r. Inr \<lparr>amount = 99000\<rparr>),
      claimInfo = (\<lambda>r. Inr \<lparr>cd_pubNonce = ''05'', cd_publicKey = ''04'',
                                cd_transactionHash = h\<rparr>),
      signedTx = (\<lambda>r. Inr \<lparr>st_pubNonce = ''05'', st_partialSignature = ''06''\<rparr>),
      posted = (\<lambda>r. Inr ())\<rparr>"

definition demoPreimage :: bytes where
  "demoPreimage = replicate 32 7"

definition demoHash :: string where
  "demoHash = hex_encode (replicate 32 9)"

definition demoClosure :: closure where
  "demoClosure = \<lparr>preimage = demoPreimage, secretKey = [7], createdResponse = demoCreated\<rparr>"

definition demoUpdate :: "string \<Rightarrow> update" where
  "demoUpdate st = \<lparr>upd_id = ''swap1'', upd_status = st, upd_transaction_hex = Some ''0207''\<rparr>"

text \<open>
  A second instance, with the sizes of the protocol. Its builder measures what it is given
  and throws otherwise: a secret key of 32 bytes, public keys of 33, public nonces of 66, a
  partial signature of 32. It does not measure the message it is to sign. The aggregate
  key has 32 bytes.
\<close>

definition strictLib :: "(unit, bytes, bytes) lib" where
  "strictLib =
     demoLib
       \<lparr>getPublicKey := (\<lambda>k. 2 # k),
        musigCreate := (\<lambda>k ks.
          if length k = 32 \<and> list_all (\<lambda>key. length key = 33) ks
          then Inr (concat ks) else Inl LibError),
        aggPubkey := take 32,
        aggregateNonces := (\<lambda>m ns.
          if list_all (\<lambda>(k, n). length k = 33 \<and> length n = 66) ns
          then Inr m else Inl LibError),
        addPartial := (\<lambda>m k p.
          if length k = 33 \<and> length p = 32 then Inr m else Inl LibError)\<rparr>"

definition sizedCreated :: createdResponse where
  "sizedCreated =
     \<lparr>swapId = ''swap1'',
      claimDetails = \<lparr>swapTree = ''tree'', serverPublicKey = hex_encode (replicate 33 2),
                       publishedAggregateKey = hex_encode (replicate 32 255)\<rparr>,
      lockupDetails = \<lparr>swapTree = ''tree'', serverPublicKey = hex_encode (replicate 33 3),
                        publishedAggregateKey = hex_encode (replicate 32 255)\<rparr>\<rparr>"

text \<open>
  A service whose keys, nonces and partial signature have these sizes and whose claim
  details hold the transaction hash \<open>h\<close>.
\<close>

definition sizedService :: "string \<Rightarrow> service" where
  "sizedService h =
     \<lparr>created = (\<lambda>r. Inr sizedCreated),
      quote = (\<lambda>r. Inr \<lparr>amount = 99000\<rparr>),
      claimInfo = (\<lambda>r. Inr \<lparr>cd_pubNonce = hex_encode (replicate 66 5),
                                cd_publicKey = hex_encode (replicate 33 4),
                                cd_transactionHash = h\<rparr>),
      signedTx = (\<lambda>r. Inr \<lparr>st_pubNonce = hex_encode (replicate 66 5),
                               st_partialSignature = hex_encode (replicate 32 6)\<rparr>),
      posted = (\<lambda>r. Inr ())\<rparr>"

definition sizedClosure :: closure where
  "sizedClosure =
     \<lparr>preimage = demoPreimage, secretKey = replicate 32 7, createdResponse = sizedCreated\<rparr>"

text \<open>An update whose transaction pays the key \<open>02...02\<close> of 32 bytes.\<close>

definition sizedUpdate :: "string \<Rightarrow> update" where
  "sizedUpdate st =
     \<lparr>upd_id = ''swap1'', upd_status = st,
      upd_transaction_hex = Some (hex_encode (replicate 32 2))\<rparr>"

section \<open>Properties\<close>

subsection \<open>Hex\<close>

lemma hex_value_digit_all: "\<forall>n \<in> set [0..<16]. hex_value (hex_digit n) = Some n"
  by code_simp

lemma hex_value_digit: "n < 16 \<Longrightarrow> hex_value (hex_digit n) = Some n"
  using hex_value_digit_all by simp

lemma decode_encode_byte:
  "hex_decode (encode_byte b @ cs) = map_option ((#) b) (hex_decode cs)"
proof -
  have "unat b < 256"
    using unsigned_less [of b] by simp
  then have hi: "unat b div 16 < 16"
    by simp
  have lo: "unat b mod 16 < 16"
    by simp
  show ?thesis
    by (simp add: encode_byte_def hex_value_digit [OF hi] hex_value_digit [OF lo]
        split: option.splits)
qed

lemma hex_roundtrip: "hex_decode (hex_encode bs) = Some bs"
  by (induction bs) (simp_all add: hex_encode_def decode_encode_byte)

subsection \<open>Sequencing and order\<close>

lemma fst_io_bind:
  "fst (io_bind m f) = (case fst m of Inl e \<Rightarrow> Inl e | Inr x \<Rightarrow> fst (f x))"
  by (simp add: io_bind_def split: sum.splits)

lemma snd_io_bind:
  "snd (io_bind m f) = snd m @ (case fst m of Inl e \<Rightarrow> [] | Inr x \<Rightarrow> snd (f x))"
  by (simp add: io_bind_def split: sum.splits)

lemmas io_simps =
  fst_io_bind snd_io_bind fetch_def ret_def throw_def lift_def musig_call_def decode_def

lemmas step_preds =
  isRound2_def isAggregateNonces_def isNonceFetch_def isSign_def isCreate_def
  isFetch_def isPost_def isQuoteFetch_def isQuoteSubmit_def

lemmas handler_defs =
  arkToBtc_onMessage_def btcToArk_onMessage_def lockupFailed_def
  arkToBtc_serverMempool_def btcToArk_claimPending_def

lemmas demo_defs =
  demoLib_def demoService_def demoClosure_def demoCreated_def updateMsg_def
  demoUpdate_def demoPreimage_def demoHash_def

lemma before_Nil: "before P Q [] = True"
  by (simp add: before_def)

lemma before_Cons: "before P Q (s # t) = (\<not> Q s \<and> (P s \<or> before P Q t))"
proof -
  have "before P Q (s # t) =
          (\<forall>i < Suc (length t). Q ((s # t) ! i) \<longrightarrow> (\<exists>j < i. P ((s # t) ! j)))"
    by (simp add: before_def)
  also have "\<dots> =
          (\<not> Q s \<and> (\<forall>i < length t. Q (t ! i) \<longrightarrow> (\<exists>j < Suc i. P ((s # t) ! j))))"
    by (simp add: All_less_Suc2)
  also have "\<dots> = (\<not> Q s \<and> (\<forall>i < length t. Q (t ! i) \<longrightarrow> (P s \<or> (\<exists>j < i. P (t ! j)))))"
    by (simp add: Ex_less_Suc2)
  also have "\<dots> = (\<not> Q s \<and> (P s \<or> before P Q t))"
    by (auto simp add: before_def)
  finally show ?thesis .
qed

subsection \<open>The steps of the handlers\<close>

lemma lockupFailed_steps:
  "snd (lockupFailed S cr) =
     (case quote S (GET (quoteUrl cr)) of
        Inl e \<Rightarrow> [Fetch (GET (quoteUrl cr))]
      | Inr q \<Rightarrow>
          [Fetch (GET (quoteUrl cr)), Fetch (POST (quoteUrl cr) (QuoteBody (amount q)))])"
  by (simp add: lockupFailed_def io_simps split: sum.splits)

lemma lockupFailed_before:
  "Q = isRound2 \<or> Q = isAggregateNonces \<or> Q = isSign \<Longrightarrow>
   before P Q (snd (lockupFailed S cr))"
  by (auto simp add: lockupFailed_steps before_Nil before_Cons step_preds split: sum.splits)

lemma mempool_round2:
  "before isAggregateNonces isRound2 (snd (arkToBtc_serverMempool L S ctx u))"
  by (simp add: arkToBtc_serverMempool_def io_simps Let_def before_Nil before_Cons
      step_preds split: sum.splits option.splits)

lemma mempool_nonce:
  "before (isNonceFetch (createdResponse ctx)) isAggregateNonces
     (snd (arkToBtc_serverMempool L S ctx u))"
  by (simp add: arkToBtc_serverMempool_def io_simps Let_def before_Nil before_Cons
      step_preds split: sum.splits option.splits)

lemma pending_round2:
  "before isAggregateNonces isRound2 (snd (btcToArk_claimPending L S ctx))"
  by (simp add: btcToArk_claimPending_def io_simps Let_def before_Nil before_Cons
      step_preds split: sum.splits option.splits)

lemma pending_nonce:
  "before (isNonceFetch (createdResponse ctx)) isAggregateNonces
     (snd (btcToArk_claimPending L S ctx))"
  by (simp add: btcToArk_claimPending_def io_simps Let_def before_Nil before_Cons
      step_preds split: sum.splits option.splits)

lemma mempool_create: "before isCreate isSign (snd (arkToBtc_serverMempool L S ctx u))"
  by (simp add: arkToBtc_serverMempool_def io_simps Let_def before_Nil before_Cons
      step_preds split: sum.splits option.splits)

lemma pending_create: "before isCreate isSign (snd (btcToArk_claimPending L S ctx))"
  by (simp add: btcToArk_claimPending_def io_simps Let_def before_Nil before_Cons
      step_preds split: sum.splits option.splits)

lemma mempool_published:
  "arkToBtc_serverMempool L S
     (ctx\<lparr>createdResponse := cr\<lparr>claimDetails := cd\<lparr>publishedAggregateKey := k1\<rparr>,
                                  lockupDetails := ld\<lparr>publishedAggregateKey := k2\<rparr>\<rparr>\<rparr>) u =
   arkToBtc_serverMempool L S
     (ctx\<lparr>createdResponse := cr\<lparr>claimDetails := cd, lockupDetails := ld\<rparr>\<rparr>) u"
  by (simp add: arkToBtc_serverMempool_def claimUrl_def Let_def
      cong: option.case_cong sum.case_cong)

lemma pending_published:
  "btcToArk_claimPending L S
     (ctx\<lparr>createdResponse := cr\<lparr>claimDetails := cd\<lparr>publishedAggregateKey := k1\<rparr>,
                                  lockupDetails := ld\<lparr>publishedAggregateKey := k2\<rparr>\<rparr>\<rparr>) =
   btcToArk_claimPending L S
     (ctx\<lparr>createdResponse := cr\<lparr>claimDetails := cd, lockupDetails := ld\<rparr>\<rparr>)"
  by (simp add: btcToArk_claimPending_def claimUrl_def Let_def cong: option.case_cong)

lemma lockupFailed_published:
  "lockupFailed S (cr\<lparr>claimDetails := cd\<lparr>publishedAggregateKey := k1\<rparr>,
                      lockupDetails := ld\<lparr>publishedAggregateKey := k2\<rparr>\<rparr>) =
   lockupFailed S (cr\<lparr>claimDetails := cd, lockupDetails := ld\<rparr>)"
  by (simp add: lockupFailed_def quoteUrl_def)

lemma mempool_no_output:
  assumes "upd_transaction_hex u = Some h" and "hex_decode h = Some raw"
    and "fromRaw L raw = Inr lockupTx"
    and "deserializeSwapTree L (swapTree (claimDetails (createdResponse ctx))) = Inr tree"
    and "hex_decode (serverPublicKey (claimDetails (createdResponse ctx))) = Some serverKey"
    and "derivedAggregateKey L (secretKey ctx) serverKey tree = Inr aggKey"
    and "detectSwap L aggKey lockupTx = None"
  shows "(\<exists>e. fst (arkToBtc_serverMempool L S ctx u) = Inl e) \<and>
         snd (arkToBtc_serverMempool L S ctx u) =
           [Musig (OpCreate (secretKey ctx) [serverKey, getPublicKey L (secretKey ctx)])]"
  using assms
  by (auto simp add: arkToBtc_serverMempool_def derivedAggregateKey_def
      io_simps Let_def split: sum.splits option.splits)

subsection \<open>Concrete runs\<close>

lemma demo_mempool:
  "arkToBtc_onMessage demoLib (demoService demoHash) demoClosure
         (updateMsg (demoUpdate ''transaction.server.mempool'')) =
   (Inr (),
    [Musig (OpCreate [7] [[2], [7]]), Musig (OpMessage [1]), Musig OpGenerateNonce,
     Fetch (POST (claimUrl demoCreated) (ClaimBody (hex_encode demoPreimage) ''01'' ''01'' 0)),
     Musig (OpAggregateNonces [([2], [5])]), Musig OpInitializeSession,
     Musig (OpAddPartial [2] [6]), Musig OpSignPartial, Musig OpAggregatePartials,
     Fetch (POST broadcastUrl (BroadcastBody ''01''))])"
  by (simp add: handler_defs demo_defs io_simps Let_def hex_value_def hex_encode_def
      encode_byte_def hex_digit_def SigHash_DEFAULT_def io_bind_def)


lemma demo_closure_fields:
  "createdResponse demoClosure = demoCreated"
  "secretKey demoClosure = [7]"
  "preimage demoClosure = demoPreimage"
  by (simp_all add: demoClosure_def)

subsection \<open>Claims about the handlers\<close>

text \<open>
  C5. On \<open>transaction.lockupFailed\<close>, when the GET of the quote answers with a quote, the
  steps of the handler are exactly two: that GET, then a POST to the same URL whose amount
  is the amount of the answer, whatever it is. Both scripts do the same.
\<close>

theorem lockupFailed_echoes_quote:
  assumes "event msg = ''update''" and "args msg = u # us"
    and "upd_status u = ''transaction.lockupFailed''"
    and "quote S (GET (quoteUrl (createdResponse ctx))) = Inr q"
  shows "snd (arkToBtc_onMessage L S ctx msg) =
           [Fetch (GET (quoteUrl (createdResponse ctx))),
            Fetch (POST (quoteUrl (createdResponse ctx)) (QuoteBody (amount q)))] \<and>
         snd (btcToArk_onMessage L S ctx msg) =
           [Fetch (GET (quoteUrl (createdResponse ctx))),
            Fetch (POST (quoteUrl (createdResponse ctx)) (QuoteBody (amount q)))]"
  using assms
  by (simp add: arkToBtc_onMessage_def btcToArk_onMessage_def lockupFailed_steps)

theorem lockupFailed_echoes_quote_witness:
  "quote (demoService demoHash) (GET (quoteUrl (createdResponse demoClosure))) =
     Inr \<lparr>amount = 99000\<rparr> \<and>
   snd (arkToBtc_onMessage demoLib (demoService demoHash) demoClosure
          (updateMsg (demoUpdate ''transaction.lockupFailed''))) =
     [Fetch (GET (quoteUrl demoCreated)),
      Fetch (POST (quoteUrl demoCreated) (QuoteBody 99000))] \<and>
   snd (btcToArk_onMessage demoLib (demoService demoHash) demoClosure
          (updateMsg (demoUpdate ''transaction.lockupFailed''))) =
     [Fetch (GET (quoteUrl demoCreated)),
      Fetch (POST (quoteUrl demoCreated) (QuoteBody 99000))]"
proof -
  have e: "event (updateMsg (demoUpdate ''transaction.lockupFailed'')) = ''update''"
    by (simp add: updateMsg_def)
  have a: "args (updateMsg (demoUpdate ''transaction.lockupFailed'')) =
             demoUpdate ''transaction.lockupFailed'' # []"
    by (simp add: updateMsg_def)
  have s: "upd_status (demoUpdate ''transaction.lockupFailed'') = ''transaction.lockupFailed''"
    by (simp add: demoUpdate_def)
  have q: "quote (demoService demoHash) (GET (quoteUrl (createdResponse demoClosure))) =
             Inr \<lparr>amount = 99000\<rparr>"
    by (simp add: demoService_def)
  from lockupFailed_echoes_quote [where L = demoLib, OF e a s q] q show ?thesis
    by (simp add: demoClosure_def)
qed

text \<open>
  C6, as the scripts have it. A message whose event is not \<open>update\<close> is dropped: the handler
  returns with no step. The identifier of an update is never read: the handler does the
  same whatever identifier the update carries. The scripts subscribe to the updates of
  their own swap only and leave the selection to the service.
\<close>

theorem non_update_dropped_id_not_read:
  "(event msg \<noteq> ''update'' \<longrightarrow>
      arkToBtc_onMessage L S ctx msg = (Inr (), []) \<and>
      btcToArk_onMessage L S ctx msg = (Inr (), [])) \<and>
   arkToBtc_onMessage L S ctx (msg\<lparr>args := u\<lparr>upd_id := i\<rparr> # us\<rparr>) =
     arkToBtc_onMessage L S ctx (msg\<lparr>args := u # us\<rparr>) \<and>
   btcToArk_onMessage L S ctx (msg\<lparr>args := u\<lparr>upd_id := i\<rparr> # us\<rparr>) =
     btcToArk_onMessage L S ctx (msg\<lparr>args := u # us\<rparr>)"
  by (simp add: arkToBtc_onMessage_def btcToArk_onMessage_def ret_def
      arkToBtc_serverMempool_def)

theorem non_update_dropped_id_not_read_witness:
  "event \<lparr>event = ''pong'', args = []\<rparr> \<noteq> ''update'' \<and>
   arkToBtc_onMessage demoLib (demoService demoHash) demoClosure \<lparr>event = ''pong'', args = []\<rparr> =
     (Inr (), []) \<and>
   btcToArk_onMessage demoLib (demoService demoHash) demoClosure \<lparr>event = ''pong'', args = []\<rparr> =
     (Inr (), [])"
  using non_update_dropped_id_not_read
          [where L = demoLib and S = "demoService demoHash" and ctx = demoClosure
             and msg = "\<lparr>event = ''pong'', args = []\<rparr>"]
  by simp

text \<open>
  C6 as the spec states it fails: an update that carries the identifier of another swap
  makes the session fetch and submit a quote.
\<close>

theorem other_swap_update_handled:
  "upd_id \<lparr>upd_id = ''swap2'', upd_status = ''transaction.lockupFailed'',
           upd_transaction_hex = None\<rparr> \<noteq> swapId (createdResponse demoClosure) \<and>
   snd (arkToBtc_onMessage demoLib (demoService demoHash) demoClosure
          (updateMsg \<lparr>upd_id = ''swap2'', upd_status = ''transaction.lockupFailed'',
                      upd_transaction_hex = None\<rparr>)) =
     [Fetch (GET (quoteUrl demoCreated)),
      Fetch (POST (quoteUrl demoCreated) (QuoteBody 99000))]"
  by (simp add: arkToBtc_onMessage_def lockupFailed_steps demo_defs)

text \<open>
  C2. In every run of either handler, a step of round 2 (the initialization of the
  session, the partial signature) comes after the aggregation of the nonces, and the
  aggregation comes after the request whose answer carries the nonce of the service.
\<close>

theorem round2_after_nonce_aggregation:
  "before isAggregateNonces isRound2 (snd (arkToBtc_onMessage L S ctx msg)) \<and>
   before (isNonceFetch (createdResponse ctx)) isAggregateNonces
     (snd (arkToBtc_onMessage L S ctx msg)) \<and>
   before isAggregateNonces isRound2 (snd (btcToArk_onMessage L S ctx msg)) \<and>
   before (isNonceFetch (createdResponse ctx)) isAggregateNonces
     (snd (btcToArk_onMessage L S ctx msg))"
  by (simp add: arkToBtc_onMessage_def btcToArk_onMessage_def ret_def throw_def
      mempool_round2 mempool_nonce pending_round2 pending_nonce lockupFailed_before
      before_Nil before_Cons step_preds split: list.splits)

theorem round2_after_nonce_aggregation_witness:
  "isRound2 (snd (arkToBtc_onMessage demoLib (demoService demoHash) demoClosure
               (updateMsg (demoUpdate ''transaction.server.mempool''))) ! 7) \<and>
   isAggregateNonces (snd (arkToBtc_onMessage demoLib (demoService demoHash) demoClosure
               (updateMsg (demoUpdate ''transaction.server.mempool''))) ! 4) \<and>
   isNonceFetch demoCreated (snd (arkToBtc_onMessage demoLib (demoService demoHash) demoClosure
               (updateMsg (demoUpdate ''transaction.server.mempool''))) ! 3) \<and>
   before isAggregateNonces isRound2
     (snd (arkToBtc_onMessage demoLib (demoService demoHash) demoClosure
            (updateMsg (demoUpdate ''transaction.server.mempool'')))) \<and>
   before (isNonceFetch demoCreated) isAggregateNonces
     (snd (arkToBtc_onMessage demoLib (demoService demoHash) demoClosure
            (updateMsg (demoUpdate ''transaction.server.mempool''))))"
  using round2_after_nonce_aggregation
          [where L = demoLib and S = "demoService demoHash" and ctx = demoClosure
             and msg = "updateMsg (demoUpdate ''transaction.server.mempool'')"]
  by (simp add: demo_mempool step_preds demo_closure_fields)

text \<open>
  C9. In \<^verbatim>\<open>arkToBtc.ts\<close>, when the lockup transaction of a \<open>transaction.server.mempool\<close>
  update has no output that pays the derived aggregate key, the handler throws, and its
  only step is the creation of the MuSig2 builder: no request, no nonce, no signature.
\<close>

theorem no_swap_output_no_request:
  assumes "event msg = ''update''" and "args msg = u # us"
    and "upd_status u = ''transaction.server.mempool''"
    and "upd_transaction_hex u = Some h" and "hex_decode h = Some raw"
    and "fromRaw L raw = Inr lockupTx"
    and "deserializeSwapTree L (swapTree (claimDetails (createdResponse ctx))) = Inr tree"
    and "hex_decode (serverPublicKey (claimDetails (createdResponse ctx))) = Some serverKey"
    and "derivedAggregateKey L (secretKey ctx) serverKey tree = Inr aggKey"
    and "detectSwap L aggKey lockupTx = None"
  shows "(\<exists>e. fst (arkToBtc_onMessage L S ctx msg) = Inl e) \<and>
         snd (arkToBtc_onMessage L S ctx msg) =
           [Musig (OpCreate (secretKey ctx) [serverKey, getPublicKey L (secretKey ctx)])]"
proof -
  have "arkToBtc_onMessage L S ctx msg = arkToBtc_serverMempool L S ctx u"
    using assms(1-3) by (simp add: arkToBtc_onMessage_def)
  then show ?thesis
    using mempool_no_output [OF assms(4-10)] by simp
qed

theorem no_swap_output_no_request_witness:
  "hex_decode ''00'' = Some [0] \<and>
   fromRaw demoLib [0] = Inr [0] \<and>
   hex_decode (serverPublicKey (claimDetails (createdResponse demoClosure))) = Some [2] \<and>
   derivedAggregateKey demoLib (secretKey demoClosure) [2] () = Inr [2, 7] \<and>
   detectSwap demoLib [2, 7] [0] = None \<and>
   (\<exists>e. fst (arkToBtc_onMessage demoLib (demoService demoHash) demoClosure
              (updateMsg \<lparr>upd_id = ''swap1'', upd_status = ''transaction.server.mempool'',
                          upd_transaction_hex = Some ''00''\<rparr>)) = Inl e) \<and>
   snd (arkToBtc_onMessage demoLib (demoService demoHash) demoClosure
          (updateMsg \<lparr>upd_id = ''swap1'', upd_status = ''transaction.server.mempool'',
                      upd_transaction_hex = Some ''00''\<rparr>)) =
     [Musig (OpCreate [7] [[2], [7]])]"
proof -
  let ?u = "\<lparr>upd_id = ''swap1'', upd_status = ''transaction.server.mempool'',
             upd_transaction_hex = Some ''00''\<rparr>"
  have 1: "event (updateMsg ?u) = ''update''" and 2: "args (updateMsg ?u) = ?u # []"
    by (simp_all add: updateMsg_def)
  have 3: "upd_status ?u = ''transaction.server.mempool''"
    and 4: "upd_transaction_hex ?u = Some ''00''"
    by simp_all
  have 5: "hex_decode ''00'' = Some [0]"
    by (simp add: hex_value_def)
  have 6: "fromRaw demoLib [0] = Inr [0]"
    by (simp add: demoLib_def)
  have 7: "deserializeSwapTree demoLib (swapTree (claimDetails (createdResponse demoClosure))) =
             Inr ()"
    by (simp add: demoLib_def)
  have 8: "hex_decode (serverPublicKey (claimDetails (createdResponse demoClosure))) = Some [2]"
    by (simp add: demoClosure_def demoCreated_def hex_value_def)
  have 9: "derivedAggregateKey demoLib (secretKey demoClosure) [2] () = Inr [2, 7]"
    by (simp add: derivedAggregateKey_def demoLib_def demoClosure_def)
  have 10: "detectSwap demoLib [2, 7] [0] = None"
    by (simp add: demoLib_def)
  from no_swap_output_no_request
         [where S = "demoService demoHash", OF 1 2 3 4 5 6 7 8 9 10] 5 6 8 9 10
  show ?thesis
    by (simp add: demoLib_def demoClosure_def)
qed

text \<open>
  C10. In the second script, on \<open>transaction.claim.pending\<close>, whatever bytes the field
  \<open>transactionHash\<close> of the claim details decodes to are the message of the MuSig2
  session, and the partial signature of that session is posted. Between the GET and the
  POST the steps are those of the builder only: nothing compares the hash with a
  transaction.
\<close>

theorem claimPending_signs_transactionHash:
  assumes "event msg = ''update''" and "args msg = u # us"
    and "upd_status u = ''transaction.claim.pending''"
    and "claimInfo S (GET (claimUrl (createdResponse ctx))) = Inr cd"
    and "hex_decode (cd_publicKey cd) = Some theirKey"
    and "hex_decode (cd_transactionHash cd) = Some h"
    and "hex_decode (serverPublicKey (lockupDetails (createdResponse ctx))) = Some serverKey"
    and "hex_decode (cd_pubNonce cd) = Some serverNonce"
    and "musigCreate L (secretKey ctx) [theirKey, getPublicKey L (secretKey ctx)] = Inr keyAgg"
    and "deserializeSwapTree L (swapTree (lockupDetails (createdResponse ctx))) = Inr tree"
    and "tweakMusig L keyAgg tree = Inr musig"
    and "musigMessage L musig h = Inr withMessage"
    and "generateNonce L withMessage = Inr withNonce"
    and "aggregateNonces L withNonce [(serverKey, serverNonce)] = Inr aggregated"
    and "initializeSession L aggregated = Inr musigNonces"
    and "signPartial L musigNonces = Inr partialSig"
  shows "snd (btcToArk_onMessage L S ctx msg) =
           [Fetch (GET (claimUrl (createdResponse ctx))),
            Musig (OpCreate (secretKey ctx) [theirKey, getPublicKey L (secretKey ctx)]),
            Musig (OpMessage h),
            Musig OpGenerateNonce,
            Musig (OpAggregateNonces [(serverKey, serverNonce)]),
            Musig OpInitializeSession,
            Musig OpSignPartial,
            Fetch (POST (claimUrl (createdResponse ctx))
              (SignatureBody (hex_encode (ourPartialSignature L partialSig))
                 (hex_encode (publicNonce L partialSig))))]"
  using assms
  by (simp add: btcToArk_onMessage_def btcToArk_claimPending_def io_simps Let_def
      split: sum.splits)

theorem claimPending_signs_transactionHash_witness:
  "claimInfo (demoService demoHash) (GET (claimUrl (createdResponse demoClosure))) =
     Inr \<lparr>cd_pubNonce = ''05'', cd_publicKey = ''04'', cd_transactionHash = demoHash\<rparr> \<and>
   hex_decode demoHash = Some (replicate 32 9) \<and>
   musigMessage demoLib [4, 7] (replicate 32 9) = Inr (replicate 32 9) \<and>
   signPartial demoLib (replicate 32 9) = Inr (replicate 32 9) \<and>
   snd (btcToArk_onMessage demoLib (demoService demoHash) demoClosure
          (updateMsg (demoUpdate ''transaction.claim.pending''))) =
     [Fetch (GET (claimUrl demoCreated)),
      Musig (OpCreate [7] [[4], [7]]),
      Musig (OpMessage (replicate 32 9)),
      Musig OpGenerateNonce,
      Musig (OpAggregateNonces [([3], [5])]),
      Musig OpInitializeSession,
      Musig OpSignPartial,
      Fetch (POST (claimUrl demoCreated) (SignatureBody demoHash demoHash))]"
proof -
  let ?m = "updateMsg (demoUpdate ''transaction.claim.pending'')"
  let ?cd = "\<lparr>cd_pubNonce = ''05'', cd_publicKey = ''04'', cd_transactionHash = demoHash\<rparr>"
  let ?h = "replicate 32 9 :: bytes"
  have 1: "event ?m = ''update''"
    and 2: "args ?m = demoUpdate ''transaction.claim.pending'' # []"
    by (simp_all add: updateMsg_def)
  have 3: "upd_status (demoUpdate ''transaction.claim.pending'') = ''transaction.claim.pending''"
    by (simp add: demoUpdate_def)
  have 4: "claimInfo (demoService demoHash) (GET (claimUrl (createdResponse demoClosure))) =
             Inr ?cd"
    by (simp add: demoService_def)
  have 5: "hex_decode (cd_publicKey ?cd) = Some [4]"
    by (simp add: hex_value_def)
  have 6: "hex_decode (cd_transactionHash ?cd) = Some ?h"
    by (simp add: demoHash_def hex_roundtrip)
  have 7: "hex_decode (serverPublicKey (lockupDetails (createdResponse demoClosure))) = Some [3]"
    by (simp add: demoClosure_def demoCreated_def hex_value_def)
  have 8: "hex_decode (cd_pubNonce ?cd) = Some [5]"
    by (simp add: hex_value_def)
  have 9: "musigCreate demoLib (secretKey demoClosure)
             [[4], getPublicKey demoLib (secretKey demoClosure)] = Inr [4, 7]"
    by (simp add: demoLib_def demoClosure_def)
  have 10: "deserializeSwapTree demoLib (swapTree (lockupDetails (createdResponse demoClosure))) =
              Inr ()"
    by (simp add: demoLib_def)
  have 11: "tweakMusig demoLib [4, 7] () = Inr [4, 7]"
    by (simp add: demoLib_def)
  have 12: "musigMessage demoLib [4, 7] ?h = Inr ?h"
    by (simp add: demoLib_def)
  have 13: "generateNonce demoLib ?h = Inr ?h"
    and 14: "aggregateNonces demoLib ?h [([3], [5])] = Inr ?h"
    and 15: "initializeSession demoLib ?h = Inr ?h"
    and 16: "signPartial demoLib ?h = Inr ?h"
    by (simp_all add: demoLib_def)
  have sig: "ourPartialSignature demoLib ?h = ?h" and nonce: "publicNonce demoLib ?h = ?h"
    and pub: "getPublicKey demoLib [7] = [7]"
    by (simp_all add: demoLib_def)
  have enc: "hex_encode ?h = demoHash"
    by (simp add: demoHash_def)
  from claimPending_signs_transactionHash
         [OF 1 2 3 4 5 6 7 8 9 10 11 12 13 14 15 16] 4 6 12 16
  show ?thesis
    by (simp add: sig nonce pub enc demo_closure_fields)
qed


subsection \<open>The builder that signs\<close>

lemma pending_sign_derived:
  "list_all
     (\<lambda>x. x = Musig OpSignPartial \<longrightarrow>
        (\<exists>cd their keyAgg tree musig h withMessage withNonce serverKey serverNonce
            aggregated session.
           claimInfo S (GET (claimUrl (createdResponse ctx))) = Inr cd \<and>
           hex_decode (cd_publicKey cd) = Some their \<and>
           musigCreate L (secretKey ctx) [their, getPublicKey L (secretKey ctx)] = Inr keyAgg \<and>
           deserializeSwapTree L (swapTree (lockupDetails (createdResponse ctx))) = Inr tree \<and>
           tweakMusig L keyAgg tree = Inr musig \<and>
           hex_decode (cd_transactionHash cd) = Some h \<and>
           musigMessage L musig h = Inr withMessage \<and>
           generateNonce L withMessage = Inr withNonce \<and>
           hex_decode (serverPublicKey (lockupDetails (createdResponse ctx))) = Some serverKey \<and>
           hex_decode (cd_pubNonce cd) = Some serverNonce \<and>
           aggregateNonces L withNonce [(serverKey, serverNonce)] = Inr aggregated \<and>
           initializeSession L aggregated = Inr session))
     (snd (btcToArk_claimPending L S ctx))"
  by (simp add: btcToArk_claimPending_def io_simps Let_def
      split: sum.splits option.splits)

lemma mempool_sign_derived:
  "list_all
     (\<lambda>x. x = Musig OpSignPartial \<longrightarrow>
        (\<exists>h raw lockupTx tree serverKey keyAgg musig out claimTx sighash withMessage.
           upd_transaction_hex u = Some h \<and> hex_decode h = Some raw \<and>
           fromRaw L raw = Inr lockupTx \<and>
           deserializeSwapTree L (swapTree (claimDetails (createdResponse ctx))) = Inr tree \<and>
           hex_decode (serverPublicKey (claimDetails (createdResponse ctx))) = Some serverKey \<and>
           musigCreate L (secretKey ctx) [serverKey, getPublicKey L (secretKey ctx)] =
             Inr keyAgg \<and>
           tweakMusig L keyAgg tree = Inr musig \<and>
           detectSwap L (aggPubkey L musig) lockupTx = Some out \<and>
           targetFee L 1 (\<lambda>fee.
             case destinationScript L of
               Inl e \<Rightarrow> Inl e
             | Inr destination \<Rightarrow>
                 constructClaimTransaction L
                   [\<lparr>utxo_preimage = preimage ctx, utxo_type = Taproot,
                     utxo_script = out_script out, utxo_amount = out_amount out,
                     utxo_vout = out_vout out, utxo_privateKey = secretKey ctx,
                     utxo_transactionId = tx_id L lockupTx, utxo_swapTree = tree,
                     utxo_internalKey = internalKey L musig, utxo_cooperative = True\<rparr>]
                   destination fee) = Inr claimTx \<and>
           preimageWitnessV1 L claimTx 0 [out_script out] SigHash_DEFAULT [out_amount out] =
             Inr sighash \<and>
           musigMessage L musig sighash = Inr withMessage))
     (snd (arkToBtc_serverMempool L S ctx u))"
  by (simp add: arkToBtc_serverMempool_def io_simps Let_def
      split: sum.splits option.splits)

lemma ark_sign_is_mempool:
  assumes "Musig OpSignPartial \<in> set (snd (arkToBtc_onMessage L S ctx msg))"
  shows "\<exists>u us. args msg = u # us \<and>
           arkToBtc_onMessage L S ctx msg = arkToBtc_serverMempool L S ctx u"
proof (cases "args msg")
  case Nil
  with assms show ?thesis
    by (simp add: arkToBtc_onMessage_def ret_def throw_def split: if_splits)
next
  case (Cons u us)
  with assms show ?thesis
    by (simp add: arkToBtc_onMessage_def ret_def lockupFailed_steps
        split: if_splits sum.splits)
qed

lemma btc_sign_is_pending:
  assumes "Musig OpSignPartial \<in> set (snd (btcToArk_onMessage L S ctx msg))"
  shows "btcToArk_onMessage L S ctx msg = btcToArk_claimPending L S ctx"
proof (cases "args msg")
  case Nil
  with assms show ?thesis
    by (simp add: btcToArk_onMessage_def ret_def throw_def split: if_splits)
next
  case (Cons u us)
  with assms show ?thesis
    by (simp add: btcToArk_onMessage_def ret_def lockupFailed_steps
        split: if_splits sum.splits)
qed

lemma pending_sign_chain:
  assumes "Musig OpSignPartial \<in> set (snd (btcToArk_claimPending L S ctx))"
  shows "\<exists>details their keyAgg tree musig h withMessage withNonce serverKey serverNonce
          aggregated session.
         claimInfo S (GET (claimUrl (createdResponse ctx))) = Inr details \<and>
         hex_decode (cd_publicKey details) = Some their \<and>
         musigCreate L (secretKey ctx) [their, getPublicKey L (secretKey ctx)] = Inr keyAgg \<and>
         deserializeSwapTree L (swapTree (lockupDetails (createdResponse ctx))) = Inr tree \<and>
         tweakMusig L keyAgg tree = Inr musig \<and>
         derivedAggregateKey L (secretKey ctx) their tree = Inr (aggPubkey L musig) \<and>
         hex_decode (cd_transactionHash details) = Some h \<and>
         musigMessage L musig h = Inr withMessage \<and>
         generateNonce L withMessage = Inr withNonce \<and>
         hex_decode (serverPublicKey (lockupDetails (createdResponse ctx))) = Some serverKey \<and>
         hex_decode (cd_pubNonce details) = Some serverNonce \<and>
         aggregateNonces L withNonce [(serverKey, serverNonce)] = Inr aggregated \<and>
         initializeSession L aggregated = Inr session"
proof -
  note all = pending_sign_derived [of S ctx L, unfolded list_all_iff]
  from bspec [OF all assms, THEN mp, OF refl] show ?thesis
    by (elim exE conjE, intro exI conjI) (assumption | simp add: derivedAggregateKey_def)+
qed

lemma mempool_sign_chain:
  assumes "Musig OpSignPartial \<in> set (snd (arkToBtc_serverMempool L S ctx u))"
  shows "\<exists>h raw lockupTx tree serverKey keyAgg musig out claimTx sighash withMessage.
         upd_transaction_hex u = Some h \<and> hex_decode h = Some raw \<and>
         fromRaw L raw = Inr lockupTx \<and>
         deserializeSwapTree L (swapTree (claimDetails (createdResponse ctx))) = Inr tree \<and>
         hex_decode (serverPublicKey (claimDetails (createdResponse ctx))) = Some serverKey \<and>
         musigCreate L (secretKey ctx) [serverKey, getPublicKey L (secretKey ctx)] =
           Inr keyAgg \<and>
         tweakMusig L keyAgg tree = Inr musig \<and>
         derivedAggregateKey L (secretKey ctx) serverKey tree = Inr (aggPubkey L musig) \<and>
         detectSwap L (aggPubkey L musig) lockupTx = Some out \<and>
         targetFee L 1 (\<lambda>fee.
           case destinationScript L of
             Inl e \<Rightarrow> Inl e
           | Inr destination \<Rightarrow>
               constructClaimTransaction L
                 [\<lparr>utxo_preimage = preimage ctx, utxo_type = Taproot,
                   utxo_script = out_script out, utxo_amount = out_amount out,
                   utxo_vout = out_vout out, utxo_privateKey = secretKey ctx,
                   utxo_transactionId = tx_id L lockupTx, utxo_swapTree = tree,
                   utxo_internalKey = internalKey L musig, utxo_cooperative = True\<rparr>]
                 destination fee) = Inr claimTx \<and>
         preimageWitnessV1 L claimTx 0 [out_script out] SigHash_DEFAULT [out_amount out] =
           Inr sighash \<and>
         musigMessage L musig sighash = Inr withMessage"
proof -
  note all = mempool_sign_derived [of u L ctx S, unfolded list_all_iff]
  from bspec [OF all assms, THEN mp, OF refl] show ?thesis
    by (elim exE conjE, intro exI conjI) (assumption | simp add: derivedAggregateKey_def)+
qed

lemmas sized_defs =
  strictLib_def demoLib_def sizedService_def sizedClosure_def sizedCreated_def
  updateMsg_def sizedUpdate_def demoPreimage_def

lemma sized_pending:
  "btcToArk_onMessage strictLib (sizedService h) sizedClosure
         (updateMsg (sizedUpdate ''transaction.claim.pending'')) =
   (case hex_decode h of
      None \<Rightarrow>
        (Inl DecodeError,
         [Fetch (GET (claimUrl sizedCreated)),
          Musig (OpCreate (replicate 32 7) [replicate 33 4, 2 # replicate 32 7])])
    | Some bs \<Rightarrow>
        (Inr (),
         [Fetch (GET (claimUrl sizedCreated)),
          Musig (OpCreate (replicate 32 7) [replicate 33 4, 2 # replicate 32 7]),
          Musig (OpMessage bs), Musig OpGenerateNonce,
          Musig (OpAggregateNonces [(replicate 33 3, replicate 66 5)]),
          Musig OpInitializeSession, Musig OpSignPartial,
          Fetch (POST (claimUrl sizedCreated) (SignatureBody (hex_encode bs) (hex_encode bs)))]))"
  by (simp add: btcToArk_onMessage_def btcToArk_claimPending_def sized_defs io_simps Let_def
      hex_roundtrip prod_eq_iff split: option.splits)

lemma sized_mempool:
  "arkToBtc_onMessage strictLib (sizedService demoHash) sizedClosure
         (updateMsg (sizedUpdate ''transaction.server.mempool'')) =
   (Inr (),
    [Musig (OpCreate (replicate 32 7) [replicate 33 2, 2 # replicate 32 7]),
     Musig (OpMessage [1]), Musig OpGenerateNonce,
     Fetch (POST (claimUrl sizedCreated) (ClaimBody (hex_encode demoPreimage) (hex_encode [1]) (hex_encode [1]) 0)),
     Musig (OpAggregateNonces [(replicate 33 2, replicate 66 5)]), Musig OpInitializeSession,
     Musig (OpAddPartial (replicate 33 2) (replicate 32 6)), Musig OpSignPartial,
     Musig OpAggregatePartials,
     Fetch (POST broadcastUrl (BroadcastBody (hex_encode [1])))])"
  by (simp add: arkToBtc_onMessage_def arkToBtc_serverMempool_def sized_defs io_simps Let_def
      hex_roundtrip prod_eq_iff SigHash_DEFAULT_def)

lemma sized_derived:
  "derivedAggregateKey strictLib (replicate 32 7) (replicate 33 4) () = Inr (replicate 32 4)"
  "derivedAggregateKey strictLib (replicate 32 7) (replicate 33 2) () = Inr (replicate 32 2)"
  by (simp_all add: derivedAggregateKey_def strictLib_def demoLib_def)

lemma sized_closure_fields:
  "createdResponse sizedClosure = sizedCreated"
  "secretKey sizedClosure = replicate 32 7"
  "preimage sizedClosure = demoPreimage"
  by (simp_all add: sizedClosure_def)

text \<open>
  C1, as the scripts have it. Both handlers derive the tweaked aggregate key before they
  compute a partial signature: whenever \<open>signPartial\<close> is among the steps, the MuSig2
  builder was created from the own secret key with the public key of the other side and
  the own public key, it was tweaked with the deserialized swap tree of the answer of the
  creation, its aggregate key is the derived key, and the message was bound to that
  tweaked builder. In \<^verbatim>\<open>arkToBtc.ts\<close> the derived key is used for one more thing, to find the
  output of the lockup transaction. The derived key is compared with nothing that the
  answer of the creation publishes: whatever aggregate keys that answer holds, the
  handlers do the same.
\<close>

theorem published_key_never_compared:
  "arkToBtc_onMessage L S
     (ctx\<lparr>createdResponse := cr\<lparr>claimDetails := cd\<lparr>publishedAggregateKey := k1\<rparr>,
                                  lockupDetails := ld\<lparr>publishedAggregateKey := k2\<rparr>\<rparr>\<rparr>) msg =
   arkToBtc_onMessage L S
     (ctx\<lparr>createdResponse := cr\<lparr>claimDetails := cd, lockupDetails := ld\<rparr>\<rparr>) msg \<and>
   btcToArk_onMessage L S
     (ctx\<lparr>createdResponse := cr\<lparr>claimDetails := cd\<lparr>publishedAggregateKey := k1\<rparr>,
                                  lockupDetails := ld\<lparr>publishedAggregateKey := k2\<rparr>\<rparr>\<rparr>) msg =
   btcToArk_onMessage L S
     (ctx\<lparr>createdResponse := cr\<lparr>claimDetails := cd, lockupDetails := ld\<rparr>\<rparr>) msg \<and>
   before isCreate isSign (snd (arkToBtc_onMessage L S ctx msg)) \<and>
   before isCreate isSign (snd (btcToArk_onMessage L S ctx msg)) \<and>
   (Musig OpSignPartial \<in> set (snd (arkToBtc_onMessage L S ctx msg)) \<longrightarrow>
      (\<exists>u us. args msg = u # us \<and>
       (\<exists>h raw lockupTx tree serverKey keyAgg musig out claimTx sighash withMessage.
         upd_transaction_hex u = Some h \<and> hex_decode h = Some raw \<and>
         fromRaw L raw = Inr lockupTx \<and>
         deserializeSwapTree L (swapTree (claimDetails (createdResponse ctx))) = Inr tree \<and>
         hex_decode (serverPublicKey (claimDetails (createdResponse ctx))) = Some serverKey \<and>
         musigCreate L (secretKey ctx) [serverKey, getPublicKey L (secretKey ctx)] =
           Inr keyAgg \<and>
         tweakMusig L keyAgg tree = Inr musig \<and>
         derivedAggregateKey L (secretKey ctx) serverKey tree = Inr (aggPubkey L musig) \<and>
         detectSwap L (aggPubkey L musig) lockupTx = Some out \<and>
         targetFee L 1 (\<lambda>fee.
           case destinationScript L of
             Inl e \<Rightarrow> Inl e
           | Inr destination \<Rightarrow>
               constructClaimTransaction L
                 [\<lparr>utxo_preimage = preimage ctx, utxo_type = Taproot,
                   utxo_script = out_script out, utxo_amount = out_amount out,
                   utxo_vout = out_vout out, utxo_privateKey = secretKey ctx,
                   utxo_transactionId = tx_id L lockupTx, utxo_swapTree = tree,
                   utxo_internalKey = internalKey L musig, utxo_cooperative = True\<rparr>]
                 destination fee) = Inr claimTx \<and>
         preimageWitnessV1 L claimTx 0 [out_script out] SigHash_DEFAULT [out_amount out] =
           Inr sighash \<and>
         musigMessage L musig sighash = Inr withMessage))) \<and>
   (Musig OpSignPartial \<in> set (snd (btcToArk_onMessage L S ctx msg)) \<longrightarrow>
      (\<exists>details their keyAgg tree musig h withMessage withNonce serverKey serverNonce
          aggregated session.
         claimInfo S (GET (claimUrl (createdResponse ctx))) = Inr details \<and>
         hex_decode (cd_publicKey details) = Some their \<and>
         musigCreate L (secretKey ctx) [their, getPublicKey L (secretKey ctx)] = Inr keyAgg \<and>
         deserializeSwapTree L (swapTree (lockupDetails (createdResponse ctx))) = Inr tree \<and>
         tweakMusig L keyAgg tree = Inr musig \<and>
         derivedAggregateKey L (secretKey ctx) their tree = Inr (aggPubkey L musig) \<and>
         hex_decode (cd_transactionHash details) = Some h \<and>
         musigMessage L musig h = Inr withMessage \<and>
         generateNonce L withMessage = Inr withNonce \<and>
         hex_decode (serverPublicKey (lockupDetails (createdResponse ctx))) = Some serverKey \<and>
         hex_decode (cd_pubNonce details) = Some serverNonce \<and>
         aggregateNonces L withNonce [(serverKey, serverNonce)] = Inr aggregated \<and>
         initializeSession L aggregated = Inr session))"
  (is "_ \<and> _ \<and> _ \<and> _ \<and> (_ \<longrightarrow> ?ARK) \<and> (_ \<longrightarrow> ?BTC)")
proof -
  have ark: "arkToBtc_onMessage L S
     (ctx\<lparr>createdResponse := cr\<lparr>claimDetails := cd\<lparr>publishedAggregateKey := k1\<rparr>,
                                  lockupDetails := ld\<lparr>publishedAggregateKey := k2\<rparr>\<rparr>\<rparr>) msg =
   arkToBtc_onMessage L S
     (ctx\<lparr>createdResponse := cr\<lparr>claimDetails := cd, lockupDetails := ld\<rparr>\<rparr>) msg"
    by (simp add: arkToBtc_onMessage_def mempool_published lockupFailed_published
        cong: if_cong list.case_cong)
  have btc: "btcToArk_onMessage L S
     (ctx\<lparr>createdResponse := cr\<lparr>claimDetails := cd\<lparr>publishedAggregateKey := k1\<rparr>,
                                  lockupDetails := ld\<lparr>publishedAggregateKey := k2\<rparr>\<rparr>\<rparr>) msg =
   btcToArk_onMessage L S
     (ctx\<lparr>createdResponse := cr\<lparr>claimDetails := cd, lockupDetails := ld\<rparr>\<rparr>) msg"
    by (simp add: btcToArk_onMessage_def pending_published lockupFailed_published
        cong: if_cong list.case_cong)
  have ark_order: "before isCreate isSign (snd (arkToBtc_onMessage L S ctx msg))"
    by (simp add: arkToBtc_onMessage_def ret_def throw_def mempool_create lockupFailed_before
        before_Nil before_Cons step_preds split: list.splits)
  have btc_order: "before isCreate isSign (snd (btcToArk_onMessage L S ctx msg))"
    by (simp add: btcToArk_onMessage_def ret_def throw_def pending_create lockupFailed_before
        before_Nil before_Cons step_preds split: list.splits)
  have ark_sign: ?ARK
    if sign: "Musig OpSignPartial \<in> set (snd (arkToBtc_onMessage L S ctx msg))"
  proof -
    from ark_sign_is_mempool [OF sign] obtain u us where args: "args msg = u # us"
      and run: "arkToBtc_onMessage L S ctx msg = arkToBtc_serverMempool L S ctx u"
      by blast
    from sign run have "Musig OpSignPartial \<in> set (snd (arkToBtc_serverMempool L S ctx u))"
      by simp
    from args mempool_sign_chain [OF this] show ?thesis
      by (intro exI [of _ u] exI [of _ us] conjI)
  qed
  have btc_sign: ?BTC
    if sign: "Musig OpSignPartial \<in> set (snd (btcToArk_onMessage L S ctx msg))"
  proof -
    from sign btc_sign_is_pending [OF sign]
    have "Musig OpSignPartial \<in> set (snd (btcToArk_claimPending L S ctx))"
      by simp
    then show ?thesis
      by (rule pending_sign_chain)
  qed
  from ark btc ark_order btc_order ark_sign btc_sign show ?thesis
    by blast
qed

theorem published_key_never_compared_witness:
  "Musig OpSignPartial \<in>
     set (snd (btcToArk_onMessage strictLib (sizedService demoHash) sizedClosure
                (updateMsg (sizedUpdate ''transaction.claim.pending'')))) \<and>
   claimInfo (sizedService demoHash) (GET (claimUrl (createdResponse sizedClosure))) =
     Inr \<lparr>cd_pubNonce = hex_encode (replicate 66 5),
          cd_publicKey = hex_encode (replicate 33 4), cd_transactionHash = demoHash\<rparr> \<and>
   derivedAggregateKey strictLib (secretKey sizedClosure) (replicate 33 4) () =
     Inr (replicate 32 4) \<and>
   Musig OpSignPartial \<in>
     set (snd (arkToBtc_onMessage strictLib (sizedService demoHash) sizedClosure
                (updateMsg (sizedUpdate ''transaction.server.mempool'')))) \<and>
   derivedAggregateKey strictLib (secretKey sizedClosure) (replicate 33 2) () =
     Inr (replicate 32 2) \<and>
   detectSwap strictLib (replicate 32 2) (replicate 32 2) =
     Some \<lparr>out_script = replicate 32 2, out_amount = 100000, out_vout = 0\<rparr> \<and>
   before isCreate isSign
     (snd (arkToBtc_onMessage strictLib (sizedService demoHash) sizedClosure
            (updateMsg (sizedUpdate ''transaction.server.mempool'')))) \<and>
   before isCreate isSign
     (snd (btcToArk_onMessage strictLib (sizedService demoHash) sizedClosure
            (updateMsg (sizedUpdate ''transaction.claim.pending''))))"
proof -
  have hash: "hex_decode demoHash = Some (replicate 32 9)"
    by (simp add: demoHash_def hex_roundtrip)
  have btc: "Musig OpSignPartial \<in>
     set (snd (btcToArk_onMessage strictLib (sizedService demoHash) sizedClosure
                (updateMsg (sizedUpdate ''transaction.claim.pending''))))"
    by (simp add: sized_pending hash)
  have ark: "Musig OpSignPartial \<in>
     set (snd (arkToBtc_onMessage strictLib (sizedService demoHash) sizedClosure
                (updateMsg (sizedUpdate ''transaction.server.mempool''))))"
    by (simp add: sized_mempool)
  have info: "claimInfo (sizedService demoHash) (GET (claimUrl (createdResponse sizedClosure))) =
     Inr \<lparr>cd_pubNonce = hex_encode (replicate 66 5),
          cd_publicKey = hex_encode (replicate 33 4), cd_transactionHash = demoHash\<rparr>"
    by (simp add: sizedService_def)
  have out: "detectSwap strictLib (replicate 32 2) (replicate 32 2) =
     Some \<lparr>out_script = replicate 32 2, out_amount = 100000, out_vout = 0\<rparr>"
    by (simp add: strictLib_def demoLib_def)
  note ark_run = published_key_never_compared
      [where L = strictLib and S = "sizedService demoHash" and ctx = sizedClosure
         and msg = "updateMsg (sizedUpdate ''transaction.server.mempool'')"]
  note btc_run = published_key_never_compared
      [where L = strictLib and S = "sizedService demoHash" and ctx = sizedClosure
         and msg = "updateMsg (sizedUpdate ''transaction.claim.pending'')"]
  note ark_order = ark_run [THEN conjunct2, THEN conjunct2, THEN conjunct1]
  note btc_order = btc_run [THEN conjunct2, THEN conjunct2, THEN conjunct2, THEN conjunct1]
  from btc ark info out ark_order btc_order sized_derived show ?thesis
    by (simp add: sized_closure_fields)
qed

text \<open>
  C1 as the spec states it fails. In this run of the second script every key, nonce and
  hash has the size of the protocol and the builder measures them. The answer of the
  creation publishes the aggregate key \<open>ff...ff\<close>; the key derived from the own key, the
  public key of the claim details and the swap tree is \<open>04...04\<close>; the handler computes its
  partial signature and posts it.
\<close>

theorem signing_despite_key_mismatch:
  "hex_decode (publishedAggregateKey (lockupDetails (createdResponse sizedClosure))) =
     Some (replicate 32 255) \<and>
   claimInfo (sizedService demoHash) (GET (claimUrl (createdResponse sizedClosure))) =
     Inr \<lparr>cd_pubNonce = hex_encode (replicate 66 5),
          cd_publicKey = hex_encode (replicate 33 4), cd_transactionHash = demoHash\<rparr> \<and>
   hex_decode (hex_encode (replicate 33 4)) = Some (replicate 33 4) \<and>
   derivedAggregateKey strictLib (secretKey sizedClosure) (replicate 33 4) () =
     Inr (replicate 32 4) \<and>
   replicate 32 4 \<noteq> (replicate 32 255 :: bytes) \<and>
   btcToArk_onMessage strictLib (sizedService demoHash) sizedClosure
     (updateMsg (sizedUpdate ''transaction.claim.pending'')) =
   (Inr (),
    [Fetch (GET (claimUrl sizedCreated)),
     Musig (OpCreate (replicate 32 7) [replicate 33 4, 2 # replicate 32 7]),
     Musig (OpMessage (replicate 32 9)), Musig OpGenerateNonce,
     Musig (OpAggregateNonces [(replicate 33 3, replicate 66 5)]),
     Musig OpInitializeSession, Musig OpSignPartial,
     Fetch (POST (claimUrl sizedCreated) (SignatureBody demoHash demoHash))])"
proof -
  have hash: "hex_decode demoHash = Some (replicate 32 9)"
    and enc: "hex_encode (replicate 32 9) = demoHash"
    by (simp_all add: demoHash_def hex_roundtrip)
  have published:
    "hex_decode (publishedAggregateKey (lockupDetails (createdResponse sizedClosure))) =
       Some (replicate 32 255)"
    by (simp add: sizedClosure_def sizedCreated_def hex_roundtrip)
  have info: "claimInfo (sizedService demoHash) (GET (claimUrl (createdResponse sizedClosure))) =
     Inr \<lparr>cd_pubNonce = hex_encode (replicate 66 5),
          cd_publicKey = hex_encode (replicate 33 4), cd_transactionHash = demoHash\<rparr>"
    by (simp add: sizedService_def)
  from published info sized_derived show ?thesis
    by (simp add: sized_pending hash enc hex_roundtrip sized_closure_fields)
qed

subsection \<open>Fields that do not decode\<close>















end
